theory Spec2Isabelle
  imports Complex_Main
begin

section \<open>The synthetic benchmark script \<^verbatim>\<open>synthetic_benchmark_tf2.py\<close>\<close>

text \<open>
  The script is a straight-line program over module-level globals. It is embedded as
  functions over an explicit \<open>state\<close> (standard output, the calls made into TensorFlow and
  BytePS, the process environment, the number of random tensors drawn) and an explicit \<open>env\<close> (everything the script reads
  from outside: the BytePS identity of the worker, the discovered GPUs, the attributes of
  \<^verbatim>\<open>tensorflow.keras.applications\<close>, the wall-clock durations \<^verbatim>\<open>timeit\<close> measures).

  Python floats are abstracted to the reals extended by a not-a-number value (rounding and
  overflow are not modelled). The exceptions modelled are those the script's own
  expressions raise; what happens inside TensorFlow, BytePS and NumPy is opaque.
\<close>

subsection \<open>Values\<close>

datatype error = IndexError | AttributeError | ZeroDivisionError

datatype pyfloat = Num real | NaN

fun fmul :: "pyfloat \<Rightarrow> pyfloat \<Rightarrow> pyfloat" where
  "fmul (Num x) (Num y) = Num (x * y)"
| "fmul _ _ = NaN"

text \<open>An operand of the \<^verbatim>\<open>%\<close> string formatting operator, and a format string applied
  to its operands (the rendering of \<^verbatim>\<open>%d\<close>, \<^verbatim>\<open>%s\<close>, \<^verbatim>\<open>%.1f\<close> is left symbolic).\<close>

datatype arg = S string | D int | F pyfloat

datatype formatted = Percent string "arg list"

subsection \<open>Command line and surroundings\<close>

record args =
  fp16_allreduce :: bool
  model :: string
  batch_size :: int
  num_warmup_batches :: int
  num_batches_per_iter :: int
  num_iters :: int
  no_cuda :: bool

definition cuda :: "args \<Rightarrow> bool" where
  \<comment> \<open>\<^verbatim>\<open>args.cuda = not args.no_cuda\<close>\<close>
  "cuda a = (\<not> no_cuda a)"

record env =
  bps_rank :: int
  bps_local_rank :: int
  bps_size :: int
  list_physical_devices :: "string list"
  applications :: "string set"
  warmup_time :: real
  iter_time :: "nat \<Rightarrow> real"

text \<open>
  \<open>list_physical_devices\<close> is what \<^verbatim>\<open>tf.config.experimental.list_physical_devices('GPU')\<close>
  returns, \<open>applications\<close> the attribute names of the module
  \<^verbatim>\<open>tensorflow.keras.applications\<close>, \<open>warmup_time\<close> the duration \<^verbatim>\<open>timeit.timeit\<close>
  returns for the warm-up loop and \<open>iter_time x\<close> the one it returns in iteration \<open>x\<close> of
  the benchmark loop.
\<close>

subsection \<open>Tensors and models\<close>

datatype dtype = Float16 | BFloat16 | Float32 | Float64 | Int32 | Int64

fun is_integer_dtype :: "dtype \<Rightarrow> bool" where
  "is_integer_dtype Int32 = True"
| "is_integer_dtype Int64 = True"
| "is_integer_dtype _ = False"

text \<open>A tensor drawn by \<^verbatim>\<open>tf.random.uniform\<close>: every element is uniform in the half-open
  range from \<open>minval\<close> to \<open>maxval\<close>. The random elements themselves are not modelled; in
  their place a tensor carries the number \<open>draw\<close> of the call that drew it, counted from the
  start of the run, so that two draws give two tensors even when shape, range and type
  agree.\<close>

record tensor =
  shape :: "int list"
  minval :: real
  maxval :: real
  dtype :: dtype
  draw :: nat

text \<open>A model constructor: imported from a named module by \<^verbatim>\<open>importlib\<close>, or an
  attribute of \<^verbatim>\<open>tensorflow.keras.applications\<close> looked up by name.\<close>

datatype ctor = Imported string string | Attribute string

text \<open>The module-level names the training step reads: \<^verbatim>\<open>model\<close>, \<^verbatim>\<open>data\<close> and
  \<^verbatim>\<open>target\<close>, each bound once.\<close>

record globals =
  keras_model :: ctor
  data :: tensor
  target :: tensor

definition startswith :: "string \<Rightarrow> string \<Rightarrow> bool" where
  "startswith s p = (take (length p) s = p)"

definition getattr_applications :: "env \<Rightarrow> string \<Rightarrow> error + ctor" where
  "getattr_applications e name =
     (if name \<in> applications e then Inr (Attribute name) else Inl AttributeError)"

definition resolve_model :: "args \<Rightarrow> env \<Rightarrow> error + ctor" where
  "resolve_model a e =
     (if startswith (model a) ''vgg19''
        then Inr (Imported ''tensorflow.keras.applications.vgg19'' ''VGG19'')
      else if startswith (model a) ''resnet50''
        then Inr (Imported ''tensorflow.keras.applications.resnet'' ''ResNet50'')
      else getattr_applications e (model a))"

subsection \<open>State and effects\<close>

datatype compression = Compression_fp16 | Compression_none

datatype variables = Model_variables | Opt_variables

datatype call =
    Set_memory_growth string bool
  | Set_visible_devices string string
  | Gradient_step ctor tensor tensor compression
  | Broadcast_variables variables int

record state =
  stdout :: "(formatted \<times> string) list"
  calls :: "call list"
  environ :: "string \<rightharpoonup> string"
  draws :: nat

text \<open>\<open>draws\<close> counts the calls of \<^verbatim>\<open>tf.random.uniform\<close> made so far.\<close>

definition init :: state where
  "init = \<lparr>stdout = [], calls = [], environ = Map.empty, draws = 0\<rparr>"

definition tf_random_uniform ::
  "int list \<Rightarrow> real \<Rightarrow> real \<Rightarrow> dtype \<Rightarrow> state \<Rightarrow> tensor \<times> state" where
  "tf_random_uniform sh lo hi dt st =
     (\<lparr>shape = sh, minval = lo, maxval = hi, dtype = dt, draw = draws st\<rparr>,
      st\<lparr>draws := Suc (draws st)\<rparr>)"

definition do_call :: "call \<Rightarrow> state \<Rightarrow> state" where
  "do_call c st = st\<lparr>calls := calls st @ [c]\<rparr>"

definition print :: "formatted \<Rightarrow> string \<Rightarrow> state \<Rightarrow> state" where
  "print s end st = st\<lparr>stdout := stdout st @ [(s, end)]\<rparr>"

definition log :: "env \<Rightarrow> formatted \<Rightarrow> bool \<Rightarrow> state \<Rightarrow> state" where
  "log e s nl st =
     (if bps_rank e \<noteq> 0 then st
      else print s (if nl then [CHR 0x0A] else []) st)"

text \<open>Python list indexing: a negative index counts from the end, an index out of range
  raises.\<close>

definition getitem :: "'a list \<Rightarrow> int \<Rightarrow> error + 'a" where
  "getitem xs i =
     (if 0 \<le> i \<and> i < int (length xs) then Inr (xs ! nat i)
      else if - int (length xs) \<le> i \<and> i < 0 then Inr (xs ! nat (int (length xs) + i))
      else Inl IndexError)"

definition setup_devices :: "args \<Rightarrow> env \<Rightarrow> state \<Rightarrow> state \<times> error option" where
  "setup_devices a e st =
     (if cuda a then
        (let gpus = list_physical_devices e;
             st1 = fold (\<lambda>gpu. do_call (Set_memory_growth gpu True)) gpus st
         in if gpus \<noteq> [] then
              (case getitem gpus (bps_local_rank e) of
                 Inl err \<Rightarrow> (st1, Some err)
               | Inr gpu \<Rightarrow> (do_call (Set_visible_devices gpu ''GPU'') st1, None))
            else (st1, None))
      else (st\<lparr>environ := (environ st)(''CUDA_VISIBLE_DEVICES'' \<mapsto> ''-1'')\<rparr>, None))"

definition benchmark_step :: "args \<Rightarrow> globals \<Rightarrow> bool \<Rightarrow> state \<Rightarrow> state" where
  "benchmark_step a g first_batch st =
     (let compression = (if fp16_allreduce a then Compression_fp16 else Compression_none);
          st1 = do_call (Gradient_step (keras_model g) (data g) (target g) compression) st
      in if first_batch
         then do_call (Broadcast_variables Opt_variables 0)
                (do_call (Broadcast_variables Model_variables 0) st1)
         else st1)"

text \<open>\<^verbatim>\<open>timeit.timeit(stmt, number=n)\<close> runs \<open>stmt\<close> \<open>n\<close> times (not at all when \<open>n\<close> is
  negative) and returns the duration \<open>t\<close> the clock measured.\<close>

definition timeit_timeit :: "(state \<Rightarrow> state) \<Rightarrow> int \<Rightarrow> real \<Rightarrow> state \<Rightarrow> real \<times> state" where
  "timeit_timeit stmt number t st = (t, (stmt ^^ nat number) st)"

definition device :: "args \<Rightarrow> string" where
  "device a = (if cuda a then ''GPU'' else ''CPU'')"

subsection \<open>The measurement\<close>

definition warmup :: "args \<Rightarrow> env \<Rightarrow> globals \<Rightarrow> state \<Rightarrow> state" where
  "warmup a e g st =
     (let st1 = log e (Percent ''Running warmup...'' []) True st;
          st2 = benchmark_step a g True st1
      in snd (timeit_timeit (benchmark_step a g False) (num_warmup_batches a)
                (warmup_time e) st2))"

text \<open>The body of \<^verbatim>\<open>for x in range(args.num_iters)\<close>, over the remaining values of \<open>x\<close>;
  \<open>img_secs\<close> is the list the loop appends to. Dividing by a float zero raises.\<close>

fun benchmark_loop ::
  "args \<Rightarrow> env \<Rightarrow> globals \<Rightarrow> nat list \<Rightarrow> state \<Rightarrow> real list \<Rightarrow> state \<times> (error + real list)" where
  "benchmark_loop a e g [] st img_secs = (st, Inr img_secs)"
| "benchmark_loop a e g (x # xs) st img_secs =
     (let (time, st1) = timeit_timeit (benchmark_step a g False) (num_batches_per_iter a)
                          (iter_time e x) st
      in if time = 0 then (st1, Inl ZeroDivisionError)
         else
           (let img_sec = real_of_int (batch_size a * num_batches_per_iter a) / time;
                st2 = log e (Percent ''Iter #%d: %.1f img/sec per %s''
                               [D (int x), F (Num img_sec), S (device a)]) True st1
            in benchmark_loop a e g xs st2 (img_secs @ [img_sec])))"

definition py_range :: "int \<Rightarrow> nat list" where
  "py_range n = [0 ..< nat n]"

text \<open>\<^verbatim>\<open>np.mean\<close> and \<^verbatim>\<open>np.std\<close> (with its default \<^verbatim>\<open>ddof=0\<close>) of a list of floats; on
  the empty list both warn and return not-a-number.\<close>

definition np_mean :: "real list \<Rightarrow> pyfloat" where
  "np_mean xs = (if xs = [] then NaN else Num (sum_list xs / real (length xs)))"

definition np_std :: "real list \<Rightarrow> pyfloat" where
  "np_std xs =
     (if xs = [] then NaN
      else (let arrmean = sum_list xs / real (length xs);
                x = map (\<lambda>v. v - arrmean) xs
            in Num (sqrt (sum_list (map (\<lambda>v. v * v) x) / real (length xs)))))"

definition img_sec_mean :: "real list \<Rightarrow> pyfloat" where
  "img_sec_mean img_secs = np_mean img_secs"

definition img_sec_conf :: "real list \<Rightarrow> pyfloat" where
  "img_sec_conf img_secs = fmul (Num 1.96) (np_std img_secs)"

definition results :: "args \<Rightarrow> env \<Rightarrow> real list \<Rightarrow> state \<Rightarrow> state" where
  "results a e img_secs st =
     (let st1 = log e (Percent ''Img/sec per %s: %.1f +-%.1f''
                         [S (device a), F (img_sec_mean img_secs), F (img_sec_conf img_secs)])
                  True st
      in log e (Percent ''Total img/sec on %d %s(s): %.1f +-%.1f''
                  [D (bps_size e), S (device a),
                   F (fmul (Num (real_of_int (bps_size e))) (img_sec_mean img_secs)),
                   F (fmul (Num (real_of_int (bps_size e))) (img_sec_conf img_secs))])
           True st1)"

text \<open>The block under \<^verbatim>\<open>with tf.device(device)\<close>.\<close>

definition benchmark :: "args \<Rightarrow> env \<Rightarrow> globals \<Rightarrow> state \<Rightarrow> state \<times> error option" where
  "benchmark a e g st =
     (let st1 = warmup a e g st;
          st2 = log e (Percent ''Running benchmark...'' []) True st1
      in case benchmark_loop a e g (py_range (num_iters a)) st2 [] of
           (st3, Inl err) \<Rightarrow> (st3, Some err)
         | (st3, Inr img_secs) \<Rightarrow> (results a e img_secs st3, None))"

definition header :: "args \<Rightarrow> env \<Rightarrow> state \<Rightarrow> state" where
  "header a e st =
     (let st1 = log e (Percent ''Model: %s'' [S (model a)]) True st;
          st2 = log e (Percent ''Batch size: %d'' [D (batch_size a)]) True st1
      in log e (Percent ''Number of %ss: %d'' [S (device a), D (bps_size e)]) True st2)"

text \<open>The whole script, from a state \<open>st\<close>: the final state and the uncaught exception,
  if any, that ended the run. Once the model is resolved, \<^verbatim>\<open>data\<close> is drawn by
  \<^verbatim>\<open>tf.random.uniform([args.batch_size, 224, 224, 3])\<close> (the defaults are \<^verbatim>\<open>minval=0\<close>,
  \<^verbatim>\<open>maxval=None\<close>, which is 1 for floats, and \<^verbatim>\<open>dtype=tf.float32\<close>) and \<^verbatim>\<open>target\<close> by
  \<^verbatim>\<open>tf.random.uniform([args.batch_size, 1], minval=0, maxval=999, dtype=tf.float64)\<close>.\<close>

definition script :: "args \<Rightarrow> env \<Rightarrow> state \<Rightarrow> state \<times> error option" where
  "script a e st =
     (case setup_devices a e st of
        (st1, Some err) \<Rightarrow> (st1, Some err)
      | (st1, None) \<Rightarrow>
          (case resolve_model a e of
             Inl err \<Rightarrow> (st1, Some err)
           | Inr m \<Rightarrow>
               (let (d, st2) = tf_random_uniform [batch_size a, 224, 224, 3] 0 1 Float32 st1;
                    (t, st3) = tf_random_uniform [batch_size a, 1] 0 999 Float64 st2
                in benchmark a e \<lparr>keras_model = m, data = d, target = t\<rparr>
                     (header a e st3))))"

subsection \<open>Notions used to state the properties\<close>

text \<open>The call one training step makes for the forward pass, the aggregated gradients and
  the optimizer update, and the two broadcasts from root rank 0.\<close>

definition gradient_step :: "args \<Rightarrow> globals \<Rightarrow> call" where
  "gradient_step a g =
     Gradient_step (keras_model g) (data g) (target g)
       (if fp16_allreduce a then Compression_fp16 else Compression_none)"

text \<open>The two tensors a run binds to \<^verbatim>\<open>data\<close> and \<^verbatim>\<open>target\<close> when \<open>n\<close> draws were made
  before it, and the names the training step then reads.\<close>

definition drawn_data :: "args \<Rightarrow> nat \<Rightarrow> tensor" where
  "drawn_data a n =
     \<lparr>shape = [batch_size a, 224, 224, 3], minval = 0, maxval = 1, dtype = Float32, draw = n\<rparr>"

definition drawn_target :: "args \<Rightarrow> nat \<Rightarrow> tensor" where
  "drawn_target a n =
     \<lparr>shape = [batch_size a, 1], minval = 0, maxval = 999, dtype = Float64, draw = Suc n\<rparr>"

definition run_globals :: "args \<Rightarrow> ctor \<Rightarrow> nat \<Rightarrow> globals" where
  "run_globals a m n = \<lparr>keras_model = m, data = drawn_data a n, target = drawn_target a n\<rparr>"

definition broadcasts :: "call list" where
  "broadcasts = [Broadcast_variables Model_variables 0, Broadcast_variables Opt_variables 0]"

fun is_training_call :: "call \<Rightarrow> bool" where
  "is_training_call (Gradient_step m d t c) = True"
| "is_training_call (Broadcast_variables v r) = True"
| "is_training_call _ = False"

text \<open>The throughput of iteration \<open>x\<close> as the specification words it, and the line logged
  for it.\<close>

definition throughput :: "args \<Rightarrow> env \<Rightarrow> nat \<Rightarrow> real" where
  "throughput a e x = real_of_int (batch_size a * num_batches_per_iter a) / iter_time e x"

definition newline :: string where
  "newline = [CHR 0x0A]"

definition iter_line :: "args \<Rightarrow> env \<Rightarrow> nat \<Rightarrow> formatted \<times> string" where
  "iter_line a e x =
     (Percent ''Iter #%d: %.1f img/sec per %s''
        [D (int x), F (Num (throughput a e x)), S (device a)], newline)"

text \<open>Arithmetic mean and population standard deviation (divisor \<open>n\<close>), and the sample
  standard deviation (divisor \<open>n - 1\<close>) it is not.\<close>

definition arithmetic_mean :: "real list \<Rightarrow> real" where
  "arithmetic_mean xs = sum_list xs / real (length xs)"

definition population_stddev :: "real list \<Rightarrow> real" where
  "population_stddev xs =
     sqrt ((\<Sum>x\<leftarrow>xs. (x - arithmetic_mean xs)\<^sup>2) / real (length xs))"

definition sample_stddev :: "real list \<Rightarrow> real" where
  "sample_stddev xs =
     sqrt ((\<Sum>x\<leftarrow>xs. (x - arithmetic_mean xs)\<^sup>2) / real (length xs - 1))"

definition summary_lines :: "args \<Rightarrow> env \<Rightarrow> pyfloat \<Rightarrow> pyfloat \<Rightarrow> (formatted \<times> string) list" where
  "summary_lines a e mean conf =
     [(Percent ''Img/sec per %s: %.1f +-%.1f'' [S (device a), F mean, F conf], newline),
      (Percent ''Total img/sec on %d %s(s): %.1f +-%.1f''
         [D (bps_size e), S (device a),
          F (fmul (Num (real_of_int (bps_size e))) mean),
          F (fmul (Num (real_of_int (bps_size e))) conf)], newline)]"

definition header_lines :: "args \<Rightarrow> env \<Rightarrow> (formatted \<times> string) list" where
  "header_lines a e =
     [(Percent ''Model: %s'' [S (model a)], newline),
      (Percent ''Batch size: %d'' [D (batch_size a)], newline),
      (Percent ''Number of %ss: %d'' [S (device a), D (bps_size e)], newline),
      (Percent ''Running warmup...'' [], newline),
      (Percent ''Running benchmark...'' [], newline)]"



text \<open>The defaults of the argument parser, and a worker of rank 0 in a group of one, with
  one GPU, whose every timed loop takes two seconds.\<close>

definition default_args :: args where
  "default_args =
     \<lparr>fp16_allreduce = False, model = ''ResNet50'', batch_size = 32,
      num_warmup_batches = 10, num_batches_per_iter = 10, num_iters = 10, no_cuda = False\<rparr>"

definition single_worker :: env where
  "single_worker =
     \<lparr>bps_rank = 0, bps_local_rank = 0, bps_size = 1,
      list_physical_devices = [''GPU:0''], applications = {''ResNet50'', ''VGG19''},
      warmup_time = 2, iter_time = (\<lambda>x. 2)\<rparr>"

section \<open>Effects of the single operations\<close>

lemma stdout_do_call: "stdout (do_call c st) = stdout st"
  by (simp add: do_call_def)

lemma calls_do_call: "calls (do_call c st) = calls st @ [c]"
  by (simp add: do_call_def)

lemma draws_do_call: "draws (do_call c st) = draws st"
  by (simp add: do_call_def)

lemma stdout_log:
  "stdout (log e s True st) = stdout st @ (if bps_rank e = 0 then [(s, newline)] else [])"
  by (simp add: log_def print_def newline_def)

lemma calls_log: "calls (log e s nl st) = calls st"
  by (simp add: log_def print_def)

lemma draws_log: "draws (log e s nl st) = draws st"
  by (simp add: log_def print_def)

lemma log_silent: "bps_rank e \<noteq> 0 \<Longrightarrow> log e s nl st = st"
  by (simp add: log_def)

lemma stdout_benchmark_step: "stdout (benchmark_step a g fb st) = stdout st"
  by (simp add: benchmark_step_def Let_def stdout_do_call)

lemma calls_benchmark_step:
  "calls (benchmark_step a g fb st) =
     calls st @ gradient_step a g # (if fb then broadcasts else [])"
  by (simp add: benchmark_step_def gradient_step_def broadcasts_def Let_def calls_do_call)

lemma draws_benchmark_step: "draws (benchmark_step a g fb st) = draws st"
  by (simp add: benchmark_step_def Let_def draws_do_call)

lemma draws_steps: "draws ((benchmark_step a g fb ^^ n) st) = draws st"
  by (induction n) (simp_all add: draws_benchmark_step)

lemma stdout_steps: "stdout ((benchmark_step a g fb ^^ n) st) = stdout st"
  by (induction n) (simp_all add: stdout_benchmark_step)

lemma calls_steps:
  "calls ((benchmark_step a g False ^^ n) st) = calls st @ replicate n (gradient_step a g)"
  by (induction n) (simp_all add: calls_benchmark_step replicate_append_same)

lemma stdout_warmup:
  "stdout (warmup a e g st) =
     stdout st @ (if bps_rank e = 0 then [(Percent ''Running warmup...'' [], newline)] else [])"
  by (simp add: warmup_def timeit_timeit_def Let_def stdout_steps stdout_benchmark_step
      stdout_log)

lemma calls_warmup:
  "calls (warmup a e g st) =
     calls st @ gradient_step a g # broadcasts @
       replicate (nat (num_warmup_batches a)) (gradient_step a g)"
  by (simp add: warmup_def timeit_timeit_def Let_def calls_steps calls_benchmark_step
      calls_log)

lemma draws_warmup: "draws (warmup a e g st) = draws st"
  by (simp add: warmup_def timeit_timeit_def Let_def draws_steps draws_benchmark_step draws_log)

section \<open>The benchmark loop\<close>

lemma benchmark_loop_ok:
  "\<forall>x \<in> set xs. iter_time e x \<noteq> 0 \<Longrightarrow>
   snd (benchmark_loop a e g xs st acc) = Inr (acc @ map (throughput a e) xs) \<and>
   stdout (fst (benchmark_loop a e g xs st acc)) =
     stdout st @ (if bps_rank e = 0 then map (iter_line a e) xs else []) \<and>
   calls (fst (benchmark_loop a e g xs st acc)) =
     calls st @ replicate (length xs * nat (num_batches_per_iter a)) (gradient_step a g)"
proof (induction xs arbitrary: st acc)
  case Nil
  then show ?case by simp
next
  case (Cons x xs)
  then show ?case
    by (simp add: timeit_timeit_def Let_def stdout_log calls_log stdout_steps calls_steps
        throughput_def iter_line_def replicate_add)
qed

lemma benchmark_loop_Inr:
  "snd (benchmark_loop a e g xs st acc) = Inr ys \<Longrightarrow> \<forall>x \<in> set xs. iter_time e x \<noteq> 0"
proof (induction xs arbitrary: st acc)
  case Nil
  then show ?case by simp
next
  case (Cons x xs)
  then show ?case
    by (auto simp: timeit_timeit_def Let_def split: if_splits)
qed

lemma benchmark_loop_silent:
  "bps_rank e \<noteq> 0 \<Longrightarrow> stdout (fst (benchmark_loop a e g xs st acc)) = stdout st"
proof (induction xs arbitrary: st acc)
  case Nil
  then show ?case by simp
next
  case (Cons x xs)
  then show ?case
    by (simp add: timeit_timeit_def Let_def log_silent stdout_steps)
qed

lemma benchmark_loop_calls:
  "\<exists>k. calls (fst (benchmark_loop a e g xs st acc)) = calls st @ replicate k (gradient_step a g)"
proof (induction xs arbitrary: st acc)
  case Nil
  then show ?case by simp
next
  case (Cons x xs)
  let ?n = "nat (num_batches_per_iter a)"
  let ?st1 = "(benchmark_step a g False ^^ ?n) st"
  show ?case
  proof (cases "iter_time e x = 0")
    case True
    then have "calls (fst (benchmark_loop a e g (x # xs) st acc)) =
        calls st @ replicate ?n (gradient_step a g)"
      by (simp add: timeit_timeit_def calls_steps)
    then show ?thesis by blast
  next
    case False
    obtain st2 acc2 where step:
      "benchmark_loop a e g (x # xs) st acc = benchmark_loop a e g xs st2 acc2"
      and c2: "calls st2 = calls ?st1"
      using False by (simp add: timeit_timeit_def Let_def calls_log)
    from Cons.IH [of st2 acc2] obtain k where
      "calls (fst (benchmark_loop a e g xs st2 acc2)) = calls st2 @ replicate k (gradient_step a g)"
      by blast
    then have "calls (fst (benchmark_loop a e g (x # xs) st acc)) =
        calls st @ replicate (?n + k) (gradient_step a g)"
      unfolding step by (simp add: c2 calls_steps replicate_add)
    then show ?thesis by blast
  qed
qed

lemma draws_benchmark_loop: "draws (fst (benchmark_loop a e g xs st acc)) = draws st"
proof (induction xs arbitrary: st acc)
  case Nil
  then show ?case by simp
next
  case (Cons x xs)
  then show ?case
    by (simp add: timeit_timeit_def Let_def draws_log draws_steps)
qed

section \<open>Summary statistics\<close>

lemma np_std_population:
  "xs \<noteq> [] \<Longrightarrow> np_std xs = Num (population_stddev xs)"
  by (simp add: np_std_def population_stddev_def arithmetic_mean_def Let_def power2_eq_square
      comp_def)

lemma stdout_results:
  "stdout (results a e img_secs st) =
     stdout st @ (if bps_rank e = 0
                  then summary_lines a e (img_sec_mean img_secs) (img_sec_conf img_secs)
                  else [])"
  by (simp add: results_def Let_def stdout_log summary_lines_def)

lemma calls_results: "calls (results a e img_secs st) = calls st"
  by (simp add: results_def Let_def calls_log)

lemma draws_results: "draws (results a e img_secs st) = draws st"
  by (simp add: results_def Let_def draws_log)

section \<open>The measurement block and the script\<close>

lemma benchmark_ok:
  assumes "\<forall>x < nat (num_iters a). iter_time e x \<noteq> 0"
  shows "snd (benchmark a e g st) = None"
    and "stdout (fst (benchmark a e g st)) =
           stdout st @
           (if bps_rank e = 0
            then [(Percent ''Running warmup...'' [], newline),
                  (Percent ''Running benchmark...'' [], newline)] @
                 map (iter_line a e) (py_range (num_iters a)) @
                 summary_lines a e (img_sec_mean (map (throughput a e) (py_range (num_iters a))))
                   (img_sec_conf (map (throughput a e) (py_range (num_iters a))))
            else [])"
    and "calls (fst (benchmark a e g st)) =
           calls st @ gradient_step a g # broadcasts @
           replicate (nat (num_warmup_batches a) + nat (num_iters a) * nat (num_batches_per_iter a))
             (gradient_step a g)"
proof -
  let ?st2 = "log e (Percent ''Running benchmark...'' []) True (warmup a e g st)"
  let ?r = "benchmark_loop a e g (py_range (num_iters a)) ?st2 []"
  have nz: "\<forall>x \<in> set (py_range (num_iters a)). iter_time e x \<noteq> 0"
    using assms by (simp add: py_range_def)
  note loop = benchmark_loop_ok [OF nz, of a g ?st2 "[]"]
  have r: "?r = (fst ?r, Inr (map (throughput a e) (py_range (num_iters a))))"
    using loop by (simp add: prod_eq_iff)
  have b: "benchmark a e g st =
             (results a e (map (throughput a e) (py_range (num_iters a))) (fst ?r), None)"
    unfolding benchmark_def Let_def by (subst r) simp
  show "snd (benchmark a e g st) = None"
    by (simp add: b)
  show "stdout (fst (benchmark a e g st)) =
           stdout st @
           (if bps_rank e = 0
            then [(Percent ''Running warmup...'' [], newline),
                  (Percent ''Running benchmark...'' [], newline)] @
                 map (iter_line a e) (py_range (num_iters a)) @
                 summary_lines a e (img_sec_mean (map (throughput a e) (py_range (num_iters a))))
                   (img_sec_conf (map (throughput a e) (py_range (num_iters a))))
            else [])"
    using loop by (simp add: b stdout_results stdout_log stdout_warmup)
  show "calls (fst (benchmark a e g st)) =
           calls st @ gradient_step a g # broadcasts @
           replicate (nat (num_warmup_batches a) + nat (num_iters a) * nat (num_batches_per_iter a))
             (gradient_step a g)"
    using loop by (simp add: b calls_results calls_log calls_warmup py_range_def replicate_add)
qed

lemma benchmark_None:
  assumes "snd (benchmark a e g st) = None"
  shows "\<forall>x < nat (num_iters a). iter_time e x \<noteq> 0"
proof -
  let ?st2 = "log e (Percent ''Running benchmark...'' []) True (warmup a e g st)"
  obtain st3 r where r: "benchmark_loop a e g (py_range (num_iters a)) ?st2 [] = (st3, r)"
    by (cases "benchmark_loop a e g (py_range (num_iters a)) ?st2 []")
  with assms obtain ys where "r = Inr ys"
    by (cases r) (simp_all add: benchmark_def Let_def)
  with r have "snd (benchmark_loop a e g (py_range (num_iters a)) ?st2 []) = Inr ys"
    by simp
  from benchmark_loop_Inr [OF this] show ?thesis
    by (simp add: py_range_def)
qed

lemma benchmark_silent:
  assumes "bps_rank e \<noteq> 0"
  shows "stdout (fst (benchmark a e g st)) = stdout st"
proof -
  let ?st2 = "log e (Percent ''Running benchmark...'' []) True (warmup a e g st)"
  obtain st3 r where r: "benchmark_loop a e g (py_range (num_iters a)) ?st2 [] = (st3, r)"
    by (cases "benchmark_loop a e g (py_range (num_iters a)) ?st2 []")
  have "stdout st3 = stdout ?st2"
    using benchmark_loop_silent [OF assms, of a g "py_range (num_iters a)" ?st2 "[]"] r by simp
  also have "\<dots> = stdout st"
    using assms by (simp add: stdout_log stdout_warmup)
  finally show ?thesis
    using assms r by (cases r) (simp_all add: benchmark_def Let_def stdout_results)
qed

lemma benchmark_calls:
  "\<exists>k. calls (fst (benchmark a e g st)) =
         calls st @ gradient_step a g # broadcasts @ replicate k (gradient_step a g)"
proof -
  let ?st2 = "log e (Percent ''Running benchmark...'' []) True (warmup a e g st)"
  obtain st3 r where r: "benchmark_loop a e g (py_range (num_iters a)) ?st2 [] = (st3, r)"
    by (cases "benchmark_loop a e g (py_range (num_iters a)) ?st2 []")
  from benchmark_loop_calls [of a e g "py_range (num_iters a)" ?st2 "[]"] r
  obtain k where "calls st3 = calls ?st2 @ replicate k (gradient_step a g)"
    by auto
  then have st3: "calls st3 = calls st @ gradient_step a g # broadcasts @
      replicate (nat (num_warmup_batches a) + k) (gradient_step a g)"
    by (simp add: calls_log calls_warmup replicate_add)
  have "calls (fst (benchmark a e g st)) = calls st3"
    using r by (cases r) (simp_all add: benchmark_def Let_def calls_results)
  with st3 show ?thesis by metis
qed

lemma draws_benchmark: "draws (fst (benchmark a e g st)) = draws st"
proof -
  let ?st2 = "log e (Percent ''Running benchmark...'' []) True (warmup a e g st)"
  obtain st3 r where r: "benchmark_loop a e g (py_range (num_iters a)) ?st2 [] = (st3, r)"
    by (cases "benchmark_loop a e g (py_range (num_iters a)) ?st2 []")
  have "draws st3 = draws ?st2"
    using draws_benchmark_loop [of a e g "py_range (num_iters a)" ?st2 "[]"] r by simp
  then have "draws st3 = draws st"
    by (simp add: draws_log draws_warmup)
  then show ?thesis
    using r by (cases r) (simp_all add: benchmark_def Let_def draws_results)
qed

lemma stdout_header:
  "stdout (header a e st) =
     stdout st @
     (if bps_rank e = 0
      then [(Percent ''Model: %s'' [S (model a)], newline),
            (Percent ''Batch size: %d'' [D (batch_size a)], newline),
            (Percent ''Number of %ss: %d'' [S (device a), D (bps_size e)], newline)]
      else [])"
  by (simp add: header_def Let_def stdout_log)

lemma calls_header: "calls (header a e st) = calls st"
  by (simp add: header_def Let_def calls_log)

lemma draws_header: "draws (header a e st) = draws st"
  by (simp add: header_def Let_def draws_log)

lemma calls_memory_growth:
  "calls (fold (\<lambda>gpu. do_call (Set_memory_growth gpu True)) gpus st) =
     calls st @ map (\<lambda>gpu. Set_memory_growth gpu True) gpus"
  by (induction gpus arbitrary: st) (simp_all add: calls_do_call)

lemma stdout_memory_growth:
  "stdout (fold (\<lambda>gpu. do_call (Set_memory_growth gpu True)) gpus st) = stdout st"
  by (induction gpus arbitrary: st) (simp_all add: stdout_do_call)

lemma draws_memory_growth:
  "draws (fold (\<lambda>gpu. do_call (Set_memory_growth gpu True)) gpus st) = draws st"
  by (induction gpus arbitrary: st) (simp_all add: draws_do_call)

lemma stdout_setup_devices: "stdout (fst (setup_devices a e st)) = stdout st"
  by (simp add: setup_devices_def Let_def stdout_memory_growth stdout_do_call
      split: sum.splits)

lemma draws_setup_devices: "draws (fst (setup_devices a e st)) = draws st"
  by (simp add: setup_devices_def Let_def draws_memory_growth draws_do_call
      split: sum.splits)

lemma training_memory_growth:
  "filter is_training_call (map (\<lambda>gpu. Set_memory_growth gpu True) gpus) = []"
  by (induction gpus) simp_all

lemma training_setup_devices:
  "filter is_training_call (calls (fst (setup_devices a e st))) =
     filter is_training_call (calls st)"
  by (simp add: setup_devices_def Let_def calls_memory_growth calls_do_call
      training_memory_growth split: sum.splits)

text \<open>The three ways the script goes: the device set-up raises, the model is not found,
  or the measurement block runs, in a state \<open>st'\<close> that follows the two draws and the
  three header lines.\<close>

lemma script_cases:
  obtains (no_device) err where "snd (setup_devices a e st) = Some err"
      "script a e st = (fst (setup_devices a e st), Some err)"
  | (no_model) err where "snd (setup_devices a e st) = None" "resolve_model a e = Inl err"
      "script a e st = (fst (setup_devices a e st), Some err)"
  | (runs) m st' where "snd (setup_devices a e st) = None" "resolve_model a e = Inr m"
      "script a e st = benchmark a e (run_globals a m (draws st)) st'"
      "stdout st' = stdout (header a e (fst (setup_devices a e st)))"
      "calls st' = calls (fst (setup_devices a e st))"
      "draws st' = Suc (Suc (draws st))"
proof (cases "setup_devices a e st")
  case (Pair st1 r)
  then have d1: "draws st1 = draws st"
    using draws_setup_devices [of a e st] by simp
  show ?thesis
  proof (cases r)
    case None
    show ?thesis
    proof (cases "resolve_model a e")
      case (Inl err)
      with Pair None show ?thesis by (intro no_model [of err]) (simp_all add: script_def)
    next
      case (Inr m)
      let ?st' = "header a e (st1\<lparr>draws := Suc (Suc (draws st))\<rparr>)"
      show ?thesis
      proof (intro runs [of m ?st'])
        show "snd (setup_devices a e st) = None" using Pair None by simp
        show "resolve_model a e = Inr m" by (fact Inr)
        show "script a e st = benchmark a e (run_globals a m (draws st)) ?st'"
          using Pair None Inr d1
          by (simp add: script_def tf_random_uniform_def run_globals_def drawn_data_def
              drawn_target_def)
        show "stdout ?st' = stdout (header a e (fst (setup_devices a e st)))"
          using Pair by (simp add: stdout_header)
        show "calls ?st' = calls (fst (setup_devices a e st))"
          using Pair by (simp add: calls_header)
        show "draws ?st' = Suc (Suc (draws st))"
          by (simp add: draws_header)
      qed
    qed
  next
    case (Some err)
    with Pair show ?thesis by (intro no_device [of err]) (simp_all add: script_def)
  qed
qed

lemma training_gradient_steps:
  "filter is_training_call (gradient_step a g # broadcasts @ replicate k (gradient_step a g)) =
     gradient_step a g # broadcasts @ replicate k (gradient_step a g)"
  by (simp add: gradient_step_def broadcasts_def)

lemma stdout_init: "stdout init = []"
  by (simp add: init_def)

lemma calls_init: "calls init = []"
  by (simp add: init_def)

lemma draws_init: "draws init = 0"
  by (simp add: init_def)

lemma script_ok:
  assumes "snd (setup_devices a e st) = None" and "resolve_model a e = Inr m"
    and "\<forall>x < nat (num_iters a). iter_time e x \<noteq> 0"
  shows "snd (script a e st) = None"
proof (cases a e st rule: script_cases)
  case (runs m' st')
  with benchmark_ok(1) [OF assms(3)] show ?thesis by simp
qed (use assms in simp_all)

lemma draws_script:
  "draws (fst (script a e st)) =
     (if snd (setup_devices a e st) = None \<and> (\<exists>m. resolve_model a e = Inr m)
      then Suc (Suc (draws st)) else draws st)"
proof (cases a e st rule: script_cases)
  case (no_device err)
  then show ?thesis by (simp add: draws_setup_devices)
next
  case (no_model err)
  then show ?thesis by (simp add: draws_setup_devices)
next
  case (runs m st')
  then show ?thesis by (simp add: draws_benchmark)
qed

lemma setup_single_worker: "snd (setup_devices default_args single_worker init) = None"
  by (simp add: setup_devices_def default_args_def single_worker_def cuda_def getitem_def)

lemma resolve_single_worker:
  "resolve_model default_args single_worker = Inr (Attribute ''ResNet50'')"
  by (simp add: resolve_model_def default_args_def single_worker_def startswith_def
      getattr_applications_def)

lemma script_single_worker: "snd (script default_args single_worker init) = None"
  by (rule script_ok [OF setup_single_worker resolve_single_worker])
    (simp add: single_worker_def)


lemma script_training_calls:
  "filter is_training_call (calls (fst (script a e init))) = [] \<or>
   (\<exists>m k. filter is_training_call (calls (fst (script a e init))) =
            gradient_step a (run_globals a m 0) # broadcasts @
            replicate k (gradient_step a (run_globals a m 0)))"
proof (cases a e init rule: script_cases)
  case (no_device err)
  then show ?thesis
    by (simp add: training_setup_devices calls_init)
next
  case (no_model err)
  then show ?thesis
    by (simp add: training_setup_devices calls_init)
next
  case (runs m st')
  let ?g = "run_globals a m 0"
  have pre: "filter is_training_call (calls st') = []"
    by (simp add: runs(5) training_setup_devices calls_init)
  obtain k where "calls (fst (benchmark a e ?g st')) =
      calls st' @ gradient_step a ?g # broadcasts @ replicate k (gradient_step a ?g)"
    using benchmark_calls by blast
  then have "filter is_training_call (calls (fst (script a e init))) =
      gradient_step a ?g # broadcasts @ replicate k (gradient_step a ?g)"
    using pre training_gradient_steps [of a ?g k] by (simp add: runs(3) draws_init)
  then show ?thesis by blast
qed

lemma script_training_calls_ok:
  assumes "snd (script a e init) = None" and "resolve_model a e = Inr m"
  shows "filter is_training_call (calls (fst (script a e init))) =
      gradient_step a (run_globals a m 0) # broadcasts @
      replicate (nat (num_warmup_batches a) + nat (num_iters a) * nat (num_batches_per_iter a))
        (gradient_step a (run_globals a m 0))"
proof (cases a e init rule: script_cases)
  case (runs m' st')
  let ?g = "run_globals a m 0"
  from runs(2) assms(2) have m': "m' = m" by simp
  have pre: "filter is_training_call (calls st') = []"
    by (simp add: runs(5) training_setup_devices calls_init)
  from assms(1) have "\<forall>x < nat (num_iters a). iter_time e x \<noteq> 0"
    using benchmark_None [of a e ?g st'] by (simp add: runs(3) m' draws_init)
  from benchmark_ok(3) [OF this, of ?g st'] show ?thesis
    using pre training_gradient_steps [of a ?g] by (simp add: runs(3) m' draws_init)
qed (use assms in simp_all)

section \<open>The claims\<close>

text \<open>
  C1. In every timed iteration \<open>x\<close> of the measured phase the value appended to
  \<^verbatim>\<open>img_secs\<close>, which is also the value in the line logged for \<open>x\<close>, is
  \<open>batch_size * num_batches_per_iter / elapsed\<close>, where \<open>elapsed\<close> is the positive duration
  of that iteration's timed loop. With batch size 32, 10 batches per iteration and two
  seconds elapsed the value is 160 (the witness).
\<close>

theorem img_sec_is_throughput:
  assumes "\<forall>x < nat (num_iters a). 0 < iter_time e x"
  shows "snd (benchmark_loop a e g (py_range (num_iters a)) st []) =
           Inr (map (\<lambda>x. real_of_int (batch_size a * num_batches_per_iter a) / iter_time e x)
                  [0 ..< nat (num_iters a)]) \<and>
         (bps_rank e = 0 \<longrightarrow>
            stdout (fst (benchmark_loop a e g (py_range (num_iters a)) st [])) =
              stdout st @
              map (\<lambda>x. (Percent ''Iter #%d: %.1f img/sec per %s''
                           [D (int x),
                            F (Num (real_of_int (batch_size a * num_batches_per_iter a)
                                    / iter_time e x)),
                            S (device a)], [CHR 0x0A]))
                [0 ..< nat (num_iters a)])"
proof -
  have nz: "\<forall>x \<in> set (py_range (num_iters a)). iter_time e x \<noteq> 0"
    using assms by (auto simp: py_range_def)
  have thr: "throughput a e = (\<lambda>x. real_of_int (batch_size a * num_batches_per_iter a) / iter_time e x)"
    by (rule ext) (simp add: throughput_def)
  have line: "iter_line a e = (\<lambda>x. (Percent ''Iter #%d: %.1f img/sec per %s''
                           [D (int x),
                            F (Num (real_of_int (batch_size a * num_batches_per_iter a)
                                    / iter_time e x)),
                            S (device a)], [CHR 0x0A]))"
    by (rule ext) (simp add: iter_line_def throughput_def newline_def)
  from benchmark_loop_ok [OF nz, of a g st "[]"] show ?thesis
    by (simp add: py_range_def thr line)
qed

theorem img_sec_is_throughput_witness:
  "0 < iter_time single_worker 0 \<and>
   snd (benchmark_loop (default_args\<lparr>num_iters := 1\<rparr>) single_worker
          (run_globals default_args (Attribute ''ResNet50'') 0) (py_range 1) init [])
     = Inr [160] \<and>
   stdout (fst (benchmark_loop (default_args\<lparr>num_iters := 1\<rparr>) single_worker
                  (run_globals default_args (Attribute ''ResNet50'') 0) (py_range 1) init [])) =
     [(Percent ''Iter #%d: %.1f img/sec per %s'' [D 0, F (Num 160), S ''GPU''], [CHR 0x0A])]"
  using img_sec_is_throughput [of "default_args\<lparr>num_iters := 1\<rparr>" single_worker
      "run_globals default_args (Attribute ''ResNet50'') 0" init]
  by (simp add: default_args_def single_worker_def init_def device_def cuda_def)

text \<open>
  C2. For a non-empty sample sequence the reported per-worker mean is the arithmetic mean
  of the samples and the reported confidence half-width is 1.96 times their population
  standard deviation (divisor \<open>n\<close>); both are the operands of the per-worker summary line.
  On the samples 1 and 3 the half-width is 1.96, the population deviation being 1 and the
  sample deviation \<open>sqrt 2\<close> (the witness).
\<close>

theorem summary_mean_and_confidence:
  assumes "img_secs \<noteq> []"
  shows "img_sec_mean img_secs = Num (arithmetic_mean img_secs) \<and>
         img_sec_conf img_secs = Num (1.96 * population_stddev img_secs) \<and>
         (bps_rank e = 0 \<longrightarrow>
            stdout (results a e img_secs st) ! length (stdout st) =
              (Percent ''Img/sec per %s: %.1f +-%.1f''
                 [S (device a), F (Num (arithmetic_mean img_secs)),
                  F (Num (1.96 * population_stddev img_secs))], [CHR 0x0A]))"
proof -
  have m: "img_sec_mean img_secs = Num (arithmetic_mean img_secs)"
    using assms by (simp add: img_sec_mean_def np_mean_def arithmetic_mean_def)
  have c: "img_sec_conf img_secs = Num (1.96 * population_stddev img_secs)"
    using assms by (simp add: img_sec_conf_def np_std_population)
  have "stdout (results a e img_secs st) ! length (stdout st) =
          (Percent ''Img/sec per %s: %.1f +-%.1f''
             [S (device a), F (img_sec_mean img_secs), F (img_sec_conf img_secs)], [CHR 0x0A])"
    if "bps_rank e = 0"
    using that by (simp add: results_def Let_def stdout_log newline_def nth_append)
  with m c show ?thesis by simp
qed

theorem summary_mean_and_confidence_witness:
  "[1, 3] \<noteq> ([] :: real list) \<and>
   img_sec_mean [1, 3] = Num 2 \<and> img_sec_conf [1, 3] = Num 1.96 \<and>
   population_stddev [1, 3] = 1 \<and> sample_stddev [1, 3] = sqrt 2"
  using summary_mean_and_confidence [of "[1, 3]" single_worker default_args init]
  by (simp add: arithmetic_mean_def population_stddev_def sample_stddev_def)

text \<open>
  C3. The group-aggregate line reports the group size times the per-worker mean and the
  group size times the per-worker confidence half-width, next to the per-worker line
  they are scaled from; for a non-empty sample sequence these are the group size times the
  arithmetic mean and times 1.96 population standard deviations.
\<close>

theorem group_aggregate_scaled:
  "(bps_rank e = 0 \<longrightarrow>
      stdout (results a e img_secs st) =
        stdout st @
        [(Percent ''Img/sec per %s: %.1f +-%.1f''
            [S (device a), F (img_sec_mean img_secs), F (img_sec_conf img_secs)], [CHR 0x0A]),
         (Percent ''Total img/sec on %d %s(s): %.1f +-%.1f''
            [D (bps_size e), S (device a),
             F (fmul (Num (real_of_int (bps_size e))) (img_sec_mean img_secs)),
             F (fmul (Num (real_of_int (bps_size e))) (img_sec_conf img_secs))], [CHR 0x0A])]) \<and>
   (img_secs \<noteq> [] \<longrightarrow>
      fmul (Num (real_of_int (bps_size e))) (img_sec_mean img_secs) =
        Num (real_of_int (bps_size e) * arithmetic_mean img_secs) \<and>
      fmul (Num (real_of_int (bps_size e))) (img_sec_conf img_secs) =
        Num (real_of_int (bps_size e) * (1.96 * population_stddev img_secs)))"
  by (simp add: stdout_results summary_lines_def newline_def img_sec_mean_def img_sec_conf_def
      np_mean_def np_std_population arithmetic_mean_def)

theorem group_aggregate_scaled_witness:
  "bps_rank (single_worker\<lparr>bps_size := 4\<rparr>) = 0 \<and>
   stdout (results default_args (single_worker\<lparr>bps_size := 4\<rparr>) [1, 3] init) =
     [(Percent ''Img/sec per %s: %.1f +-%.1f'' [S ''GPU'', F (Num 2), F (Num 1.96)], [CHR 0x0A]),
      (Percent ''Total img/sec on %d %s(s): %.1f +-%.1f''
         [D 4, S ''GPU'', F (Num 8), F (Num 7.84)], [CHR 0x0A])]"
  using group_aggregate_scaled [of "single_worker\<lparr>bps_size := 4\<rparr>" default_args "[1, 3]" init]
  by (simp add: single_worker_def default_args_def init_def device_def cuda_def
      arithmetic_mean_def population_stddev_def img_sec_mean_def img_sec_conf_def
      np_mean_def np_std_def)

text \<open>
  C4. Of the calls a run makes for training, the two broadcasts from root rank 0 (model
  variables, then optimizer variables) directly follow the first gradient step, the one
  \<^verbatim>\<open>benchmark_step(first_batch=True)\<close> makes at the start of warm-up, and every call
  after them is a gradient step: no later invocation, in warm-up or in the measured phase,
  broadcasts again, also in a run that a zero duration ends early. A run that fails before
  warm-up trains and broadcasts nothing, and a run that ends without an exception makes
  exactly \<open>num_warmup_batches + num_iters * num_batches_per_iter\<close> further gradient steps
  (negative counts taken as zero).
\<close>


theorem broadcast_first_step_only:
  "(\<forall>m. snd (setup_devices a e init) = None \<and> resolve_model a e = Inr m \<longrightarrow>
        (\<exists>k. filter is_training_call (calls (fst (script a e init))) =
               Gradient_step m (drawn_data a 0) (drawn_target a 0)
                 (if fp16_allreduce a then Compression_fp16 else Compression_none) #
               [Broadcast_variables Model_variables 0, Broadcast_variables Opt_variables 0] @
               replicate k
                 (Gradient_step m (drawn_data a 0) (drawn_target a 0)
                    (if fp16_allreduce a then Compression_fp16 else Compression_none)))) \<and>
   (snd (setup_devices a e init) \<noteq> None \<or> (\<exists>err. resolve_model a e = Inl err) \<longrightarrow>
        filter is_training_call (calls (fst (script a e init))) = []) \<and>
   (snd (script a e init) = None \<longrightarrow>
        (\<exists>m. resolve_model a e = Inr m \<and>
             filter is_training_call (calls (fst (script a e init))) =
               Gradient_step m (drawn_data a 0) (drawn_target a 0)
                 (if fp16_allreduce a then Compression_fp16 else Compression_none) #
               [Broadcast_variables Model_variables 0, Broadcast_variables Opt_variables 0] @
               replicate
                 (nat (num_warmup_batches a) + nat (num_iters a) * nat (num_batches_per_iter a))
                 (Gradient_step m (drawn_data a 0) (drawn_target a 0)
                    (if fp16_allreduce a then Compression_fp16 else Compression_none))))"
proof (cases a e init rule: script_cases)
  case (no_device err)
  then show ?thesis
    by (simp add: training_setup_devices calls_init)
next
  case (no_model err)
  then show ?thesis
    by (simp add: training_setup_devices calls_init)
next
  case (runs m st')
  let ?g = "run_globals a m 0"
  have pre: "filter is_training_call (calls st') = []"
    by (simp add: runs(5) training_setup_devices calls_init)
  have script: "script a e init = benchmark a e ?g st'"
    by (simp add: runs(3) draws_init)
  obtain k where k: "calls (fst (benchmark a e ?g st')) =
      calls st' @ gradient_step a ?g # broadcasts @ replicate k (gradient_step a ?g)"
    using benchmark_calls by blast
  have some: "\<exists>k. filter is_training_call (calls (fst (script a e init))) =
      gradient_step a ?g # broadcasts @ replicate k (gradient_step a ?g)"
    using k pre training_gradient_steps [of a ?g k] by (auto simp: script)
  have exact: "filter is_training_call (calls (fst (script a e init))) =
      gradient_step a ?g # broadcasts @
      replicate (nat (num_warmup_batches a) + nat (num_iters a) * nat (num_batches_per_iter a))
        (gradient_step a ?g)"
    if "snd (script a e init) = None"
  proof -
    from that have "\<forall>x < nat (num_iters a). iter_time e x \<noteq> 0"
      using benchmark_None [of a e ?g st'] by (simp add: script)
    from benchmark_ok(3) [OF this, of ?g st'] show ?thesis
      using pre training_gradient_steps [of a ?g] by (simp add: script)
  qed
  from some exact runs(1,2) show ?thesis
    by (simp add: gradient_step_def broadcasts_def run_globals_def)
qed

theorem broadcast_first_step_only_witness:
  "snd (script default_args single_worker init) = None \<and>
   resolve_model default_args single_worker = Inr (Attribute ''ResNet50'') \<and>
   filter is_training_call (calls (fst (script default_args single_worker init))) =
     Gradient_step (Attribute ''ResNet50'') (drawn_data default_args 0)
       (drawn_target default_args 0)
       Compression_none #
     [Broadcast_variables Model_variables 0, Broadcast_variables Opt_variables 0] @
     replicate 110
       (Gradient_step (Attribute ''ResNet50'') (drawn_data default_args 0)
       (drawn_target default_args 0)
          Compression_none)"
  using broadcast_first_step_only [of default_args single_worker]
    script_single_worker resolve_single_worker
  by (simp add: default_args_def)

text \<open>
  C6. A worker whose rank is not 0 writes nothing to standard output, whatever the group
  size and however the run ends. The worker of rank 0, in a run that ends without an
  exception, writes the model name, the batch size, the worker count, the two phase
  headings, one line per iteration and the two summary lines.
\<close>

theorem only_rank_0_logs:
  "(bps_rank e \<noteq> 0 \<longrightarrow> stdout (fst (script a e init)) = []) \<and>
   (bps_rank e = 0 \<and> snd (script a e init) = None \<longrightarrow>
      stdout (fst (script a e init)) =
        header_lines a e @ map (iter_line a e) (py_range (num_iters a)) @
        summary_lines a e (img_sec_mean (map (throughput a e) (py_range (num_iters a))))
          (img_sec_conf (map (throughput a e) (py_range (num_iters a)))))"
proof (cases a e init rule: script_cases)
  case (no_device err)
  then show ?thesis
    by (simp add: stdout_setup_devices stdout_init)
next
  case (no_model err)
  then show ?thesis
    by (simp add: stdout_setup_devices stdout_init)
next
  case (runs m st')
  let ?g = "run_globals a m 0"
  have script: "script a e init = benchmark a e ?g st'"
    by (simp add: runs(3) draws_init)
  have silent: "stdout (fst (script a e init)) = []" if "bps_rank e \<noteq> 0"
    using that benchmark_silent [OF that, of a ?g st']
    by (simp add: script runs(4) stdout_header stdout_setup_devices stdout_init)
  have loud: "stdout (fst (script a e init)) =
        header_lines a e @ map (iter_line a e) (py_range (num_iters a)) @
        summary_lines a e (img_sec_mean (map (throughput a e) (py_range (num_iters a))))
          (img_sec_conf (map (throughput a e) (py_range (num_iters a))))"
    if "bps_rank e = 0" and "snd (script a e init) = None"
  proof -
    from that(2) have "\<forall>x < nat (num_iters a). iter_time e x \<noteq> 0"
      using benchmark_None [of a e ?g st'] by (simp add: script)
    from benchmark_ok(2) [OF this, of ?g st'] that(1) show ?thesis
      by (simp add: script runs(4) stdout_header stdout_setup_devices stdout_init
          header_lines_def)
  qed
  from silent loud show ?thesis by simp
qed

theorem only_rank_0_logs_witness:
  "bps_rank (single_worker\<lparr>bps_rank := 1, bps_size := 2\<rparr>) \<noteq> 0 \<and>
   stdout (fst (script default_args (single_worker\<lparr>bps_rank := 1, bps_size := 2\<rparr>) init)) = [] \<and>
   bps_rank single_worker = 0 \<and>
   snd (script (default_args\<lparr>num_iters := 1\<rparr>) single_worker init) = None \<and>
   stdout (fst (script (default_args\<lparr>num_iters := 1\<rparr>) single_worker init)) =
     [(Percent ''Model: %s'' [S ''ResNet50''], [CHR 0x0A]),
      (Percent ''Batch size: %d'' [D 32], [CHR 0x0A]),
      (Percent ''Number of %ss: %d'' [S ''GPU'', D 1], [CHR 0x0A]),
      (Percent ''Running warmup...'' [], [CHR 0x0A]),
      (Percent ''Running benchmark...'' [], [CHR 0x0A]),
      (Percent ''Iter #%d: %.1f img/sec per %s'' [D 0, F (Num 160), S ''GPU''], [CHR 0x0A]),
      (Percent ''Img/sec per %s: %.1f +-%.1f'' [S ''GPU'', F (Num 160), F (Num 0)], [CHR 0x0A]),
      (Percent ''Total img/sec on %d %s(s): %.1f +-%.1f''
         [D 1, S ''GPU'', F (Num 160), F (Num 0)], [CHR 0x0A])]"
proof -
  let ?a = "default_args\<lparr>num_iters := 1\<rparr>"
  have "snd (setup_devices ?a single_worker init) = None"
    by (simp add: setup_devices_def default_args_def single_worker_def cuda_def getitem_def)
  moreover have "resolve_model ?a single_worker = Inr (Attribute ''ResNet50'')"
    by (simp add: resolve_model_def default_args_def single_worker_def startswith_def
        getattr_applications_def)
  ultimately have ok: "snd (script ?a single_worker init) = None"
    by (rule script_ok) (simp add: single_worker_def)
  show ?thesis
    using only_rank_0_logs [of "single_worker\<lparr>bps_rank := 1, bps_size := 2\<rparr>" default_args]
      only_rank_0_logs [of single_worker ?a] ok
    by (simp add: single_worker_def default_args_def header_lines_def iter_line_def
        summary_lines_def throughput_def py_range_def newline_def device_def cuda_def
        img_sec_mean_def img_sec_conf_def np_mean_def np_std_def)
qed

text \<open>
  C10. With \<open>num_iters = 0\<close> the measured phase makes no call (the calls are those of the
  warm-up) and logs no iteration line; no exception is raised, and the two summary lines
  are still logged, their mean and confidence half-width, per worker and for the group,
  being not-a-number.
\<close>

theorem no_iterations_nan_summary:
  assumes "num_iters a = 0"
  shows "snd (benchmark a e g st) = None \<and>
         calls (fst (benchmark a e g st)) = calls (warmup a e g st) \<and>
         img_sec_mean [] = NaN \<and> img_sec_conf [] = NaN \<and>
         stdout (fst (benchmark a e g st)) =
           stdout st @
           (if bps_rank e = 0
            then [(Percent ''Running warmup...'' [], [CHR 0x0A]),
                  (Percent ''Running benchmark...'' [], [CHR 0x0A]),
                  (Percent ''Img/sec per %s: %.1f +-%.1f'' [S (device a), F NaN, F NaN],
                   [CHR 0x0A]),
                  (Percent ''Total img/sec on %d %s(s): %.1f +-%.1f''
                     [D (bps_size e), S (device a), F NaN, F NaN], [CHR 0x0A])]
            else [])"
proof -
  have nan: "img_sec_mean [] = NaN" "img_sec_conf [] = NaN"
    by (simp_all add: img_sec_mean_def img_sec_conf_def np_mean_def np_std_def)
  have b: "benchmark a e g st =
      (results a e [] (log e (Percent ''Running benchmark...'' []) True (warmup a e g st)), None)"
    using assms by (simp add: benchmark_def py_range_def Let_def)
  show ?thesis
    by (simp add: b nan calls_results calls_log stdout_results stdout_log stdout_warmup
        summary_lines_def newline_def)
qed

theorem no_iterations_nan_summary_witness:
  "num_iters (default_args\<lparr>num_iters := 0\<rparr>) = 0 \<and>
   snd (benchmark (default_args\<lparr>num_iters := 0\<rparr>) single_worker
          (run_globals default_args (Attribute ''ResNet50'') 0) init) = None \<and>
   stdout (fst (benchmark (default_args\<lparr>num_iters := 0\<rparr>) single_worker
                  (run_globals default_args (Attribute ''ResNet50'') 0) init)) =
     [(Percent ''Running warmup...'' [], [CHR 0x0A]),
      (Percent ''Running benchmark...'' [], [CHR 0x0A]),
      (Percent ''Img/sec per %s: %.1f +-%.1f'' [S ''GPU'', F NaN, F NaN], [CHR 0x0A]),
      (Percent ''Total img/sec on %d %s(s): %.1f +-%.1f'' [D 1, S ''GPU'', F NaN, F NaN],
       [CHR 0x0A])]"
  using no_iterations_nan_summary [of "default_args\<lparr>num_iters := 0\<rparr>" single_worker
      "run_globals default_args (Attribute ''ResNet50'') 0" init]
  by (simp add: default_args_def single_worker_def init_def device_def cuda_def)




text \<open>
  C7. In accelerator mode, which the specification resolves as the flag \<^verbatim>\<open>--no-cuda\<close>
  absent and at least one GPU discovered, a local rank greater than or equal to the number
  of GPUs makes the indexing of the device list raise (\<^verbatim>\<open>IndexError\<close>, the specification's
  DeviceAssignmentError): memory growth has been enabled for every GPU, no device is made
  visible (neither a wrapped-around one nor device 0), and the exception ends the script.
\<close>

theorem local_rank_out_of_range:
  assumes "cuda a" and "list_physical_devices e \<noteq> []"
    and "int (length (list_physical_devices e)) \<le> bps_local_rank e"
  shows "snd (setup_devices a e st) = Some IndexError \<and>
         calls (fst (setup_devices a e st)) =
           calls st @ map (\<lambda>gpu. Set_memory_growth gpu True) (list_physical_devices e) \<and>
         snd (script a e st) = Some IndexError"
proof -
  have "getitem (list_physical_devices e) (bps_local_rank e) = Inl IndexError"
    using assms(3) by (simp add: getitem_def)
  with assms(1,2) have s: "setup_devices a e st =
      (fold (\<lambda>gpu. do_call (Set_memory_growth gpu True)) (list_physical_devices e) st,
       Some IndexError)"
    by (simp add: setup_devices_def Let_def)
  then show ?thesis
    by (simp add: script_def calls_memory_growth)
qed

theorem local_rank_out_of_range_witness:
  "cuda default_args \<and> list_physical_devices (single_worker\<lparr>bps_local_rank := 1\<rparr>) \<noteq> [] \<and>
   int (length (list_physical_devices (single_worker\<lparr>bps_local_rank := 1\<rparr>)))
     \<le> bps_local_rank (single_worker\<lparr>bps_local_rank := 1\<rparr>) \<and>
   setup_devices default_args (single_worker\<lparr>bps_local_rank := 1\<rparr>) init =
     (init\<lparr>calls := [Set_memory_growth ''GPU:0'' True]\<rparr>, Some IndexError) \<and>
   snd (script default_args (single_worker\<lparr>bps_local_rank := 1\<rparr>) init) = Some IndexError"
  using local_rank_out_of_range [of default_args "single_worker\<lparr>bps_local_rank := 1\<rparr>" init]
  by (simp add: cuda_def default_args_def single_worker_def setup_devices_def getitem_def
      init_def do_call_def)

text \<open>
  C8 as stated fails: the label batch is drawn with \<^verbatim>\<open>dtype=tf.float64\<close>, so the labels
  every gradient step of a run is computed on are floats, not integers.
\<close>

theorem target_not_integer_counterexample:
  "Gradient_step (Attribute ''ResNet50'')
     \<lparr>shape = [32, 224, 224, 3], minval = 0, maxval = 1, dtype = Float32, draw = 0\<rparr>
     \<lparr>shape = [32, 1], minval = 0, maxval = 999, dtype = Float64, draw = 1\<rparr>
     Compression_none \<in> set (calls (fst (script default_args single_worker init))) \<and>
   \<not> is_integer_dtype
       (dtype \<lparr>shape = [32, 1], minval = 0, maxval = 999, dtype = Float64, draw = 1\<rparr>)"
proof -
  let ?c = "gradient_step default_args (run_globals default_args (Attribute ''ResNet50'') 0)"
  have "?c \<in> set (filter is_training_call
      (calls (fst (script default_args single_worker init))))"
    by (simp add: script_training_calls_ok [OF script_single_worker resolve_single_worker])
  then have "?c \<in> set (calls (fst (script default_args single_worker init)))"
    by simp
  then show ?thesis
    by (simp add: gradient_step_def run_globals_def drawn_data_def drawn_target_def
        default_args_def)
qed

text \<open>
  C8 (amended). A run draws two tensors and no more, both after the model is resolved and
  before the first training step: the input batch, first, as 32-bit floats uniform from 0
  to 1 with shape \<open>[batch_size, 224, 224, 3]\<close>, and the label batch, second, as 64-bit
  floats uniform in the half-open range from 0 to 999 with shape \<open>[batch_size, 1]\<close>. Every
  gradient step of the run is computed on these two tensors, the first and the second
  draw, and a training step draws nothing; a run that fails before the model is resolved
  draws nothing.
\<close>

theorem synthetic_batches:
  "(\<forall>m d t c. Gradient_step m d t c \<in> set (calls (fst (script a e init))) \<longrightarrow>
      d = \<lparr>shape = [batch_size a, 224, 224, 3], minval = 0, maxval = 1, dtype = Float32,
           draw = 0\<rparr> \<and>
      t = \<lparr>shape = [batch_size a, 1], minval = 0, maxval = 999, dtype = Float64,
           draw = 1\<rparr>) \<and>
   draws (fst (script a e init)) =
     (if snd (setup_devices a e init) = None \<and> (\<exists>m. resolve_model a e = Inr m)
      then 2 else 0) \<and>
   (\<forall>g fb st. draws (benchmark_step a g fb st) = draws st \<and>
      (\<forall>m d t c. Gradient_step m d t c \<in> set (calls (benchmark_step a g fb st)) \<longrightarrow>
         Gradient_step m d t c \<in> set (calls st) \<or> d = data g \<and> t = target g))"
proof -
  have used: "d = drawn_data a 0 \<and> t = drawn_target a 0"
    if "Gradient_step m d t c \<in> set (calls (fst (script a e init)))" for m d t c
  proof -
    from that have mem: "Gradient_step m d t c \<in>
        set (filter is_training_call (calls (fst (script a e init))))"
      by simp
    from script_training_calls [of a e] consider
      "filter is_training_call (calls (fst (script a e init))) = []"
      | m' k where "filter is_training_call (calls (fst (script a e init))) =
          gradient_step a (run_globals a m' 0) # broadcasts @
          replicate k (gradient_step a (run_globals a m' 0))"
      by blast
    then show ?thesis
    proof cases
      case 1
      with mem show ?thesis by (simp only: set_simps empty_iff)
    next
      case 2
      from mem show ?thesis
        unfolding 2 by (auto simp: gradient_step_def run_globals_def broadcasts_def)
    qed
  qed
  have step: "Gradient_step m d t c \<in> set (calls st) \<or> d = data g \<and> t = target g"
    if "Gradient_step m d t c \<in> set (calls (benchmark_step a g fb st))" for g fb st m d t c
    using that by (auto simp: calls_benchmark_step gradient_step_def broadcasts_def)
  from used step show ?thesis
    by (simp add: draws_script draws_init draws_benchmark_step drawn_data_def
        drawn_target_def)
qed

theorem synthetic_batches_witness:
  "Gradient_step (Attribute ''ResNet50'')
     \<lparr>shape = [32, 224, 224, 3], minval = 0, maxval = 1, dtype = Float32, draw = 0\<rparr>
     \<lparr>shape = [32, 1], minval = 0, maxval = 999, dtype = Float64, draw = 1\<rparr>
     Compression_none \<in> set (calls (fst (script default_args single_worker init))) \<and>
   snd (setup_devices default_args single_worker init) = None \<and>
   resolve_model default_args single_worker = Inr (Attribute ''ResNet50'') \<and>
   draws (fst (script default_args single_worker init)) = 2"
proof -
  let ?c = "gradient_step default_args (run_globals default_args (Attribute ''ResNet50'') 0)"
  have "?c \<in> set (filter is_training_call
      (calls (fst (script default_args single_worker init))))"
    by (simp add: script_training_calls_ok [OF script_single_worker resolve_single_worker])
  then have "?c \<in> set (calls (fst (script default_args single_worker init)))"
    by simp
  then have mem: "Gradient_step (Attribute ''ResNet50'')
     \<lparr>shape = [32, 224, 224, 3], minval = 0, maxval = 1, dtype = Float32, draw = 0\<rparr>
     \<lparr>shape = [32, 1], minval = 0, maxval = 999, dtype = Float64, draw = 1\<rparr>
     Compression_none \<in> set (calls (fst (script default_args single_worker init)))"
    by (simp add: gradient_step_def run_globals_def drawn_data_def drawn_target_def
        default_args_def)
  from synthetic_batches [of default_args single_worker] mem
    setup_single_worker resolve_single_worker
  show ?thesis by simp
qed

text \<open>
  C9 as stated fails: without the \<^verbatim>\<open>--no-cuda\<close> flag and with no GPU discovered the device
  is still named \<^verbatim>\<open>GPU\<close> and \<^verbatim>\<open>CUDA_VISIBLE_DEVICES\<close> is left unset, whereas with the flag
  the device is \<^verbatim>\<open>CPU\<close> and the variable is set to \<^verbatim>\<open>-1\<close>.
\<close>

theorem no_devices_still_accelerator_counterexample:
  "list_physical_devices (single_worker\<lparr>list_physical_devices := []\<rparr>) = [] \<and>
   device default_args = ''GPU'' \<and>
   environ (fst (setup_devices default_args (single_worker\<lparr>list_physical_devices := []\<rparr>) init))
     ''CUDA_VISIBLE_DEVICES'' = None \<and>
   device (default_args\<lparr>no_cuda := True\<rparr>) = ''CPU'' \<and>
   environ (fst (setup_devices (default_args\<lparr>no_cuda := True\<rparr>)
                   (single_worker\<lparr>list_physical_devices := []\<rparr>) init))
     ''CUDA_VISIBLE_DEVICES'' = Some ''-1''"
  by (simp add: setup_devices_def device_def cuda_def default_args_def single_worker_def init_def)

text \<open>
  C9 (amended). The device mode is resolved from the flag alone: accelerator mode is off
  exactly when \<^verbatim>\<open>--no-cuda\<close> is given, and then the script hides all GPUs through
  \<^verbatim>\<open>CUDA_VISIBLE_DEVICES\<close> and does nothing else to the devices. Without the flag and
  with no GPU discovered the mode stays accelerator: the device set-up changes nothing and
  raises nothing.
\<close>

theorem device_mode_from_flag_only:
  "cuda a = (\<not> no_cuda a) \<and>
   device a = (if no_cuda a then ''CPU'' else ''GPU'') \<and>
   (no_cuda a \<longrightarrow>
      setup_devices a e st =
        (st\<lparr>environ := (environ st)(''CUDA_VISIBLE_DEVICES'' \<mapsto> ''-1'')\<rparr>, None)) \<and>
   (\<not> no_cuda a \<and> list_physical_devices e = [] \<longrightarrow> setup_devices a e st = (st, None))"
  by (simp add: cuda_def device_def setup_devices_def)

theorem device_mode_from_flag_only_witness:
  "no_cuda (default_args\<lparr>no_cuda := True\<rparr>) \<and>
   device (default_args\<lparr>no_cuda := True\<rparr>) = ''CPU'' \<and>
   setup_devices (default_args\<lparr>no_cuda := True\<rparr>) single_worker init =
     (init\<lparr>environ := [''CUDA_VISIBLE_DEVICES'' \<mapsto> ''-1'']\<rparr>, None) \<and>
   \<not> no_cuda default_args \<and>
   list_physical_devices (single_worker\<lparr>list_physical_devices := []\<rparr>) = [] \<and>
   device default_args = ''GPU'' \<and>
   setup_devices default_args (single_worker\<lparr>list_physical_devices := []\<rparr>) init = (init, None)"
  using device_mode_from_flag_only [of "default_args\<lparr>no_cuda := True\<rparr>" single_worker init]
    device_mode_from_flag_only [of default_args "single_worker\<lparr>list_physical_devices := []\<rparr>" init]
  by (simp add: default_args_def single_worker_def init_def)

end
